theory Spec2Isabelle
  imports Main
begin

section \<open>A directed weighted graph over nested insertion-ordered maps\<close>

text \<open>
  The repository holds the class \<open>DWG<Vertex, Weight>\<close> in two variants:
  \<^item> \<open>src/dwg.ts\<close>, whose \<open>addVertex\<close> rejects duplicates; its definitions carry the
    suffix \<open>_A\<close>;
  \<^item> the variant the test suite exercises, whose \<open>addVertex\<close> replaces an existing
    vertex; its definitions carry the suffix \<open>_B\<close>.
  Members whose bodies are the same in both variants (\<open>vertexCount\<close>, \<open>edgeCount\<close>,
  \<open>getEdges\<close>, \<open>has\<close>, \<open>getAllVertices\<close>) are defined once.
\<close>

subsection \<open>JavaScript \<open>Map\<close>\<close>

text \<open>
  A JavaScript \<open>Map\<close> iterates in insertion order, so it is an association list.
  \<open>set\<close> on a key that is present replaces the value where the entry stands, \<open>set\<close> on
  a new key appends the entry, \<open>delete\<close> removes the entry, \<open>get\<close> answers
  \<open>undefined\<close> (\<open>None\<close>) for a key that is absent.
\<close>

type_synonym ('k, 'v) jsmap = "('k \<times> 'v) list"

fun Map_get :: "'k \<Rightarrow> ('k, 'v) jsmap \<Rightarrow> 'v option" where
  "Map_get k [] = None"
| "Map_get k (p # ps) = (if fst p = k then Some (snd p) else Map_get k ps)"

fun Map_has :: "'k \<Rightarrow> ('k, 'v) jsmap \<Rightarrow> bool" where
  "Map_has k [] = False"
| "Map_has k (p # ps) = (if fst p = k then True else Map_has k ps)"

fun Map_set :: "'k \<Rightarrow> 'v \<Rightarrow> ('k, 'v) jsmap \<Rightarrow> ('k, 'v) jsmap" where
  "Map_set k v [] = [(k, v)]"
| "Map_set k v (p # ps) = (if fst p = k then (k, v) # ps else p # Map_set k v ps)"

fun Map_delete :: "'k \<Rightarrow> ('k, 'v) jsmap \<Rightarrow> ('k, 'v) jsmap" where
  "Map_delete k [] = []"
| "Map_delete k (p # ps) = (if fst p = k then Map_delete k ps else p # Map_delete k ps)"

definition Map_keys :: "('k, 'v) jsmap \<Rightarrow> 'k list" where
  "Map_keys m = map fst m"

definition Map_size :: "('k, 'v) jsmap \<Rightarrow> nat" where
  "Map_size m = length m"

text \<open>The keys of a \<open>Map\<close> object are pairwise different.\<close>

definition Map_ok :: "('k, 'v) jsmap \<Rightarrow> bool" where
  "Map_ok m = distinct (map fst m)"

subsection \<open>The graph object\<close>

text \<open>
  The only field of the class is \<open>adjList: Map<Vertex, Map<Vertex, Weight>>\<close>; a graph
  state is the value of that field. Every inner map is created by \<open>new Map()\<close> in
  \<open>addVertex\<close> and is referenced by one outer entry only, so nested values model the
  in-place updates of the inner maps.
\<close>

type_synonym ('v, 'w) DWG = "('v, ('v, 'w) jsmap) jsmap"

text \<open>
  What the methods throw: \<open>Error('Vertex already exists in the graph')\<close>, the
  \<open>ReferenceError\<close>s whose message starts with \<open>First vertex\<close>, with \<open>Second vertex\<close>,
  and \<open>ReferenceError('No such edge exists in the graph')\<close>. \<open>TypeError\<close> is what
  JavaScript throws for a method call on \<open>undefined\<close> behind a non-null assertion.
\<close>

datatype error = VertexExists | FirstVertexMissing | SecondVertexMissing | NoSuchEdge | TypeError

text \<open>The value of \<open>return this\<close>: the receiver, whose state is the state returned with it.\<close>

datatype this = This

definition DWG_new :: "('v, 'w) DWG" where
  "DWG_new = []"

definition vertexCount :: "('v, 'w) DWG \<Rightarrow> nat" where
  "vertexCount g = Map_size g"

definition edgeCount :: "('v, 'w) DWG \<Rightarrow> nat" where
  "edgeCount g = fold (\<lambda>edgeMap sum. sum + Map_size edgeMap) (map snd g) 0"

definition getEdges :: "('v, 'w) DWG \<Rightarrow> 'v \<Rightarrow> ('v \<times> 'w) list" where
  "getEdges g v = (case Map_get v g of None \<Rightarrow> [] | Some edges \<Rightarrow> edges)"

definition has :: "('v, 'w) DWG \<Rightarrow> 'v \<Rightarrow> bool" where
  "has g v = Map_has v g"

definition getAllVertices :: "('v, 'w) DWG \<Rightarrow> 'v list" where
  "getAllVertices g = Map_keys g"

definition find_vertices :: "('v, 'w) DWG \<Rightarrow> ('v \<Rightarrow> bool) \<Rightarrow> 'v list" where
  "find_vertices g filterFn = filter filterFn (Map_keys g)"

text \<open>A graph state: the outer map and every inner map have pairwise different keys.\<close>

definition DWG_ok :: "('v, 'w) DWG \<Rightarrow> bool" where
  "DWG_ok g = (Map_ok g \<and> list_all (\<lambda>entry. Map_ok (snd entry)) g)"

text \<open>No edge dangles: the destination of every edge is a vertex of the graph.\<close>

definition DWG_closed :: "('v, 'w) DWG \<Rightarrow> bool" where
  "DWG_closed g = list_all (\<lambda>entry. list_all (\<lambda>edge. Map_has (fst edge) g) (snd entry)) g"

subsection \<open>Variant A: \<open>src/dwg.ts\<close>\<close>

text \<open>
  \<open>removeEdge\<close> and \<open>getWeight\<close> of this variant test \<open>!weight\<close>, which holds for
  \<open>undefined\<close> and for every falsy weight. The truthiness of a weight is a parameter
  of the model, since \<open>Weight\<close> is a type parameter of the class; for numbers and
  strings it is:
\<close>

definition truthy_number :: "int \<Rightarrow> bool" where
  "truthy_number n = (n \<noteq> 0)"

definition truthy_string :: "string \<Rightarrow> bool" where
  "truthy_string s = (s \<noteq> [])"

definition addVertex_A :: "('v, 'w) DWG \<Rightarrow> 'v \<Rightarrow> (error + this) \<times> ('v, 'w) DWG" where
  "addVertex_A g v =
     (if Map_has v g then (Inl VertexExists, g)
      else (Inr This, Map_set v [] g))"

definition addEdge_A :: "('v, 'w) DWG \<Rightarrow> 'v \<Rightarrow> 'v \<Rightarrow> 'w \<Rightarrow> (error + this) \<times> ('v, 'w) DWG" where
  "addEdge_A g v1 v2 w =
     (case Map_get v1 g of
        None \<Rightarrow> (Inl FirstVertexMissing, g)
      | Some edgeMap \<Rightarrow>
          if \<not> Map_has v2 g then (Inl SecondVertexMissing, g)
          else (Inr This, Map_set v1 (Map_set v2 w edgeMap) g))"

definition removeEdge_A ::
  "('w \<Rightarrow> bool) \<Rightarrow> ('v, 'w) DWG \<Rightarrow> 'v \<Rightarrow> 'v \<Rightarrow> (error + 'w) \<times> ('v, 'w) DWG" where
  "removeEdge_A truthy g v1 v2 =
     (case Map_get v1 g of
        None \<Rightarrow> (Inl FirstVertexMissing, g)
      | Some edgeMap \<Rightarrow>
          (case Map_get v2 edgeMap of
             None \<Rightarrow> (Inl SecondVertexMissing, g)
           | Some weight \<Rightarrow>
               if \<not> truthy weight then (Inl SecondVertexMissing, g)
               else (Inr weight, Map_set v1 (Map_delete v2 edgeMap) g)))"

text \<open>
  The loop of \<open>removeVertex\<close>: \<open>for (const destVertex of edgeMap.keys())
  this.removeEdge(destVertex, v)\<close>. An exception of \<open>removeEdge\<close> leaves the loop and the
  method, with the removals made so far in place. The body changes the map being
  iterated only when \<open>destVertex\<close> is \<open>v\<close> itself, and then deletes the key just visited,
  so the keys visited are the keys at the start.
\<close>

fun removeVertex_loop_A ::
  "('w \<Rightarrow> bool) \<Rightarrow> ('v, 'w) DWG \<Rightarrow> 'v list \<Rightarrow> 'v \<Rightarrow> (error + unit) \<times> ('v, 'w) DWG" where
  "removeVertex_loop_A truthy g [] v = (Inr (), g)"
| "removeVertex_loop_A truthy g (destVertex # rest) v =
     (case removeEdge_A truthy g destVertex v of
        (Inl e, g') \<Rightarrow> (Inl e, g')
      | (Inr weight, g') \<Rightarrow> removeVertex_loop_A truthy g' rest v)"

definition removeVertex_A ::
  "('w \<Rightarrow> bool) \<Rightarrow> ('v, 'w) DWG \<Rightarrow> 'v \<Rightarrow> (error + bool) \<times> ('v, 'w) DWG" where
  "removeVertex_A truthy g v =
     (case Map_get v g of
        None \<Rightarrow> (Inr False, g)
      | Some edgeMap \<Rightarrow>
          (case removeVertex_loop_A truthy g (Map_keys edgeMap) v of
             (Inl e, g') \<Rightarrow> (Inl e, g')
           | (Inr u, g') \<Rightarrow> (Inr True, Map_delete v g')))"

definition getWeight_A :: "('w \<Rightarrow> bool) \<Rightarrow> ('v, 'w) DWG \<Rightarrow> 'v \<Rightarrow> 'v \<Rightarrow> error + 'w" where
  "getWeight_A truthy g v1 v2 =
     (case Map_get v1 g of
        None \<Rightarrow> Inl FirstVertexMissing
      | Some edgeMap \<Rightarrow>
          (case Map_get v2 edgeMap of
             None \<Rightarrow> Inl SecondVertexMissing
           | Some weight \<Rightarrow>
               if \<not> truthy weight then Inl SecondVertexMissing else Inr weight))"

subsection \<open>Variant B: the class under test\<close>

text \<open>
  The loop of \<open>removeVertex\<close> visits every entry of \<open>adjList\<close>, skips the entry of \<open>v\<close>
  and deletes the key \<open>v\<close> from every other inner map; then the entry of \<open>v\<close> is deleted.
\<close>

definition removeVertex_B :: "('v, 'w) DWG \<Rightarrow> 'v \<Rightarrow> bool \<times> ('v, 'w) DWG" where
  "removeVertex_B g v =
     (if \<not> Map_has v g then (False, g)
      else (True,
            Map_delete v
              (map (\<lambda>(vertex, edgeMap).
                      if vertex = v then (vertex, edgeMap)
                      else (vertex, Map_delete v edgeMap)) g)))"

definition addVertex_B :: "('v, 'w) DWG \<Rightarrow> 'v \<Rightarrow> this \<times> ('v, 'w) DWG" where
  "addVertex_B g v =
     (let g1 = (if Map_has v g then snd (removeVertex_B g v) else g)
      in (This, Map_set v [] g1))"

text \<open>
  \<open>this.adjList.get(v1)!\<close> is a method call on \<open>undefined\<close> when the key is absent;
  the two guards before it exclude that.
\<close>

definition addEdge_B :: "('v, 'w) DWG \<Rightarrow> 'v \<Rightarrow> 'v \<Rightarrow> 'w \<Rightarrow> (error + this) \<times> ('v, 'w) DWG" where
  "addEdge_B g v1 v2 w =
     (if \<not> Map_has v1 g then (Inl FirstVertexMissing, g)
      else if \<not> Map_has v2 g then (Inl SecondVertexMissing, g)
      else (case Map_get v1 g of
              None \<Rightarrow> (Inl TypeError, g)
            | Some edgeMap \<Rightarrow> (Inr This, Map_set v1 (Map_set v2 w edgeMap) g)))"

text \<open>\<open>Map.delete\<close> answers whether the key was present.\<close>

definition removeEdge_B :: "('v, 'w) DWG \<Rightarrow> 'v \<Rightarrow> 'v \<Rightarrow> (error + bool) \<times> ('v, 'w) DWG" where
  "removeEdge_B g v1 v2 =
     (if \<not> Map_has v1 g then (Inl FirstVertexMissing, g)
      else if \<not> Map_has v2 g then (Inl SecondVertexMissing, g)
      else (case Map_get v1 g of
              None \<Rightarrow> (Inl TypeError, g)
            | Some edgeMap \<Rightarrow>
                (Inr (Map_has v2 edgeMap), Map_set v1 (Map_delete v2 edgeMap) g)))"

text \<open>
  The last two lines of \<open>getWeight\<close> are \<open>if (!edgeMap.has(v2)) throw \<dots>\<close> and
  \<open>return edgeMap.get(v2)!\<close>; \<open>has\<close> is false exactly when \<open>get\<close> is \<open>undefined\<close> for a
  key that is absent, so they are one case distinction on \<open>get\<close>.
\<close>

definition getWeight_B :: "('v, 'w) DWG \<Rightarrow> 'v \<Rightarrow> 'v \<Rightarrow> error + 'w" where
  "getWeight_B g v1 v2 =
     (if \<not> Map_has v1 g then Inl FirstVertexMissing
      else if \<not> Map_has v2 g then Inl SecondVertexMissing
      else (case Map_get v1 g of
              None \<Rightarrow> Inl TypeError
            | Some edgeMap \<Rightarrow>
                (case Map_get v2 edgeMap of
                   None \<Rightarrow> Inl NoSuchEdge
                 | Some weight \<Rightarrow> Inr weight)))"

subsection \<open>Sequences of calls\<close>

text \<open>
  A call of a method that changes the graph or may throw. \<open>exec\<close> gives the state of
  the graph after the call, whether it returned or threw; \<open>getWeight\<close> writes nothing.
\<close>

datatype ('v, 'w) call =
  AddVertex 'v | AddEdge 'v 'v 'w | RemoveEdge 'v 'v | RemoveVertex 'v | GetWeight 'v 'v

fun exec_A :: "('w \<Rightarrow> bool) \<Rightarrow> ('v, 'w) DWG \<Rightarrow> ('v, 'w) call \<Rightarrow> ('v, 'w) DWG" where
  "exec_A truthy g (AddVertex v) = snd (addVertex_A g v)"
| "exec_A truthy g (AddEdge v1 v2 w) = snd (addEdge_A g v1 v2 w)"
| "exec_A truthy g (RemoveEdge v1 v2) = snd (removeEdge_A truthy g v1 v2)"
| "exec_A truthy g (RemoveVertex v) = snd (removeVertex_A truthy g v)"
| "exec_A truthy g (GetWeight v1 v2) = g"

fun exec_B :: "('v, 'w) DWG \<Rightarrow> ('v, 'w) call \<Rightarrow> ('v, 'w) DWG" where
  "exec_B g (AddVertex v) = snd (addVertex_B g v)"
| "exec_B g (AddEdge v1 v2 w) = snd (addEdge_B g v1 v2 w)"
| "exec_B g (RemoveEdge v1 v2) = snd (removeEdge_B g v1 v2)"
| "exec_B g (RemoveVertex v) = snd (removeVertex_B g v)"
| "exec_B g (GetWeight v1 v2) = g"

definition run_A :: "('w \<Rightarrow> bool) \<Rightarrow> ('v, 'w) call list \<Rightarrow> ('v, 'w) DWG" where
  "run_A truthy calls = foldl (exec_A truthy) DWG_new calls"

definition run_B :: "('v, 'w) call list \<Rightarrow> ('v, 'w) DWG" where
  "run_B calls = foldl exec_B DWG_new calls"

section \<open>Properties\<close>

subsection \<open>The map operations\<close>

lemma Map_has_iff: "Map_has k m \<longleftrightarrow> k \<in> fst ` set m"
  by (induction m) auto

lemma Map_get_None_iff: "Map_get k m = None \<longleftrightarrow> \<not> Map_has k m"
  by (induction m) auto

lemma Map_get_SomeD: "Map_get k m = Some v \<Longrightarrow> (k, v) \<in> set m"
  by (induction m) (auto split: if_splits)

lemma Map_ok_get: "Map_ok m \<Longrightarrow> (k, v) \<in> set m \<Longrightarrow> Map_get k m = Some v"
  by (induction m) (auto simp: Map_ok_def rev_image_eqI)

lemma keys_Map_set:
  "map fst (Map_set k v m) = (if Map_has k m then map fst m else map fst m @ [k])"
  by (induction m) auto

lemma Map_get_set: "Map_get k' (Map_set k v m) = (if k' = k then Some v else Map_get k' m)"
  by (induction m) auto

lemma Map_has_set: "Map_has k' (Map_set k v m) \<longleftrightarrow> k' = k \<or> Map_has k' m"
  by (induction m) auto

lemma Map_delete_filter: "Map_delete k m = filter (\<lambda>p. fst p \<noteq> k) m"
  by (induction m) auto

lemma Map_get_delete: "Map_get k' (Map_delete k m) = (if k' = k then None else Map_get k' m)"
  by (induction m) auto

lemma Map_has_delete: "Map_has k' (Map_delete k m) \<longleftrightarrow> k' \<noteq> k \<and> Map_has k' m"
  by (induction m) auto

lemma Map_ok_set: "Map_ok m \<Longrightarrow> Map_ok (Map_set k v m)"
  by (simp add: Map_ok_def keys_Map_set Map_has_iff)

lemma Map_ok_delete: "Map_ok m \<Longrightarrow> Map_ok (Map_delete k m)"
  by (simp add: Map_ok_def Map_delete_filter distinct_map_filter)

lemma Map_delete_absent: "\<not> Map_has k m \<Longrightarrow> Map_delete k m = m"
  by (induction m) auto

lemma length_Map_set:
  "length (Map_set k v m) = (if Map_has k m then length m else Suc (length m))"
  by (induction m) auto

lemma Map_has_conv: "Map_has k m \<longleftrightarrow> Map_get k m \<noteq> None"
  by (induction m) auto

lemma Map_has_keys: "Map_has k m \<longleftrightarrow> k \<in> set (map fst m)"
  by (simp add: Map_has_iff)

lemma keys_Map_delete: "map fst (Map_delete k m) = removeAll k (map fst m)"
  by (induction m) auto

lemma Map_set_same: "Map_get k m = Some v \<Longrightarrow> Map_set k v m = m"
  by (induction m) (auto split: if_splits)

lemma Map_has_Map_set_mono: "Map_has x m \<Longrightarrow> Map_has x (Map_set k v m)"
  by (simp add: Map_has_set)

lemma filter_key_absent: "k \<notin> fst ` set m \<Longrightarrow> filter (\<lambda>e. fst e = k) m = []"
  by (induction m) auto

lemma filter_key_Map_set:
  "Map_ok m \<Longrightarrow> filter (\<lambda>e. fst e = k) (Map_set k v m) = [(k, v)]"
proof (induction m)
  case Nil
  show ?case by simp
next
  case (Cons p m)
  then have ok: "Map_ok m" and fresh: "fst p \<notin> fst ` set m"
    by (simp_all add: Map_ok_def)
  show ?case
  proof (cases "fst p = k")
    case True
    with fresh have "filter (\<lambda>e. fst e = k) m = []"
      by (simp add: filter_key_absent)
    with True show ?thesis by simp
  next
    case False
    with Cons.IH [OF ok] show ?thesis by simp
  qed
qed

lemma edgeCount_fold:
  "fold (\<lambda>edgeMap sum. sum + Map_size edgeMap) ms a = a + sum_list (map length ms)"
  by (induction ms arbitrary: a) (auto simp: Map_size_def)

lemma edgeCount_sum: "edgeCount g = sum_list (map (\<lambda>entry. length (snd entry)) g)"
  by (simp add: edgeCount_def edgeCount_fold comp_def)

lemma DWG_ok_Cons:
  "DWG_ok (p # g) \<longleftrightarrow> \<not> Map_has (fst p) g \<and> Map_ok (snd p) \<and> DWG_ok g"
  by (auto simp: DWG_ok_def Map_ok_def Map_has_iff)

lemma DWG_ok_Nil: "DWG_ok []"
  by (simp add: DWG_ok_def Map_ok_def)

lemma DWG_ok_inner: "DWG_ok g \<Longrightarrow> Map_get v g = Some edgeMap \<Longrightarrow> Map_ok edgeMap"
  by (induction g) (auto simp: DWG_ok_Cons split: if_splits)

lemma DWG_ok_set: "DWG_ok g \<Longrightarrow> Map_ok edgeMap \<Longrightarrow> DWG_ok (Map_set v edgeMap g)"
  by (induction g) (auto simp: DWG_ok_Cons DWG_ok_Nil Map_has_set)

lemma DWG_ok_delete: "DWG_ok g \<Longrightarrow> DWG_ok (Map_delete v g)"
  by (induction g) (auto simp: DWG_ok_Cons Map_has_delete)

lemma edge_lengths_ok:
  "Map_ok g \<Longrightarrow>
   map ((\<lambda>v. length (getEdges g v)) \<circ> fst) g = map (\<lambda>entry. length (snd entry)) g"
  by (auto simp: getEdges_def Map_ok_get)

lemma set_Map_set: "set (Map_set k v m) \<subseteq> insert (k, v) (set m)"
  by (induction m) auto

lemma set_Map_delete: "set (Map_delete k m) = {p \<in> set m. fst p \<noteq> k}"
  by (auto simp: Map_delete_filter)

subsection \<open>Every method keeps the keys of the maps pairwise different\<close>

lemma DWG_ok_addVertex_A: "DWG_ok g \<Longrightarrow> DWG_ok (snd (addVertex_A g v))"
  by (simp add: addVertex_A_def DWG_ok_set Map_ok_def)

lemma DWG_ok_addEdge_A: "DWG_ok g \<Longrightarrow> DWG_ok (snd (addEdge_A g v1 v2 w))"
  by (auto simp: addEdge_A_def DWG_ok_set Map_ok_set DWG_ok_inner split: option.splits)

lemma DWG_ok_removeEdge_A: "DWG_ok g \<Longrightarrow> DWG_ok (snd (removeEdge_A truthy g v1 v2))"
  by (auto simp: removeEdge_A_def DWG_ok_set Map_ok_delete DWG_ok_inner split: option.splits)

lemma DWG_ok_removeVertex_loop_A:
  "DWG_ok g \<Longrightarrow> DWG_ok (snd (removeVertex_loop_A truthy g ds v))"
proof (induction ds arbitrary: g)
  case Nil
  then show ?case by simp
next
  case (Cons d ds)
  have ok: "DWG_ok (snd (removeEdge_A truthy g d v))"
    using Cons.prems by (rule DWG_ok_removeEdge_A)
  show ?case
  proof (cases "removeEdge_A truthy g d v")
    case (Pair r g')
    with ok have "DWG_ok g'" by simp
    with Pair Cons.IH [of g'] show ?thesis
      by (cases r) simp_all
  qed
qed

lemma DWG_ok_removeVertex_A: "DWG_ok g \<Longrightarrow> DWG_ok (snd (removeVertex_A truthy g v))"
proof (cases "Map_get v g")
  case None
  assume "DWG_ok g"
  with None show ?thesis by (simp add: removeVertex_A_def)
next
  case (Some edgeMap)
  assume ok: "DWG_ok g"
  obtain r g' where loop: "removeVertex_loop_A truthy g (Map_keys edgeMap) v = (r, g')"
    by (cases "removeVertex_loop_A truthy g (Map_keys edgeMap) v")
  from DWG_ok_removeVertex_loop_A [OF ok, of truthy "Map_keys edgeMap" v] loop
  have "DWG_ok g'" by simp
  with Some loop show ?thesis
    by (cases r) (simp_all add: removeVertex_A_def DWG_ok_delete)
qed

lemma DWG_ok_exec_A: "DWG_ok g \<Longrightarrow> DWG_ok (exec_A truthy g c)"
  by (cases c)
    (simp_all add: DWG_ok_addVertex_A DWG_ok_addEdge_A DWG_ok_removeEdge_A DWG_ok_removeVertex_A)

lemma DWG_ok_foldl_A: "DWG_ok g \<Longrightarrow> DWG_ok (foldl (exec_A truthy) g calls)"
  by (induction calls arbitrary: g) (simp_all add: DWG_ok_exec_A)

lemma DWG_ok_run_A: "DWG_ok (run_A truthy calls)"
  by (simp add: run_A_def DWG_new_def DWG_ok_foldl_A DWG_ok_Nil)

lemma DWG_ok_map_delete:
  "DWG_ok g \<Longrightarrow>
   DWG_ok (map (\<lambda>(vertex, edgeMap).
                  if vertex = v then (vertex, edgeMap) else (vertex, Map_delete v edgeMap)) g)"
  by (induction g) (auto simp: DWG_ok_Cons DWG_ok_Nil Map_has_iff Map_ok_delete image_iff split: if_splits)

lemma DWG_ok_removeVertex_B: "DWG_ok g \<Longrightarrow> DWG_ok (snd (removeVertex_B g v))"
  by (simp add: removeVertex_B_def DWG_ok_delete DWG_ok_map_delete)

lemma DWG_ok_addVertex_B: "DWG_ok g \<Longrightarrow> DWG_ok (snd (addVertex_B g v))"
  by (simp add: addVertex_B_def DWG_ok_set DWG_ok_removeVertex_B Map_ok_def)

lemma DWG_ok_addEdge_B: "DWG_ok g \<Longrightarrow> DWG_ok (snd (addEdge_B g v1 v2 w))"
  by (auto simp: addEdge_B_def DWG_ok_set Map_ok_set DWG_ok_inner split: option.splits)

lemma DWG_ok_removeEdge_B: "DWG_ok g \<Longrightarrow> DWG_ok (snd (removeEdge_B g v1 v2))"
  by (auto simp: removeEdge_B_def DWG_ok_set Map_ok_delete DWG_ok_inner split: option.splits)

lemma DWG_ok_exec_B: "DWG_ok g \<Longrightarrow> DWG_ok (exec_B g c)"
  by (cases c)
    (simp_all add: DWG_ok_addVertex_B DWG_ok_addEdge_B DWG_ok_removeEdge_B DWG_ok_removeVertex_B)

lemma DWG_ok_foldl_B: "DWG_ok g \<Longrightarrow> DWG_ok (foldl exec_B g calls)"
  by (induction calls arbitrary: g) (simp_all add: DWG_ok_exec_B)

lemma DWG_ok_run_B: "DWG_ok (run_B calls)"
  by (simp add: run_B_def DWG_new_def DWG_ok_foldl_B DWG_ok_Nil)

lemma edgeCount_getEdges:
  assumes "DWG_ok g"
  shows "edgeCount g = sum_list (map (\<lambda>v. length (getEdges g v)) (getAllVertices g))"
proof -
  from assms have "Map_ok g" by (simp add: DWG_ok_def)
  then show ?thesis
    by (simp add: edgeCount_sum getAllVertices_def Map_keys_def edge_lengths_ok)
qed

text \<open>
  Claim C6. After every sequence of calls on a new graph, in either variant and
  whichever calls threw, \<open>edgeCount\<close> is the sum of the lengths of \<open>getEdges(v)\<close>
  over the vertices \<open>v\<close> of \<open>getAllVertices()\<close>.
\<close>

theorem edgeCount_is_sum_of_getEdges:
  "edgeCount (run_A truthy calls) =
     sum_list (map (\<lambda>v. length (getEdges (run_A truthy calls) v))
                   (getAllVertices (run_A truthy calls))) \<and>
   edgeCount (run_B calls') =
     sum_list (map (\<lambda>v. length (getEdges (run_B calls') v))
                   (getAllVertices (run_B calls')))"
  using edgeCount_getEdges [OF DWG_ok_run_A] edgeCount_getEdges [OF DWG_ok_run_B] by blast

subsection \<open>addEdge\<close>

text \<open>The two variants of \<open>addEdge\<close> compute the same.\<close>

lemma addEdge_B_eq_A: "addEdge_B g v1 v2 w = addEdge_A g v1 v2 w"
  by (auto simp: addEdge_B_def addEdge_A_def Map_has_conv split: option.splits)

text \<open>
  Claim C5. In both variants \<open>addEdge(v1, v2, w)\<close> throws the first-vertex error when
  \<open>v1\<close> is absent and the second-vertex error when \<open>v1\<close> is present and \<open>v2\<close> is
  absent, and the graph after the call is the graph before it.
\<close>

theorem addEdge_unknown_vertex:
  "(\<not> has g v1 \<longrightarrow>
      addEdge_A g v1 v2 w = (Inl FirstVertexMissing, g) \<and>
      addEdge_B g v1 v2 w = (Inl FirstVertexMissing, g)) \<and>
   (has g v1 \<and> \<not> has g v2 \<longrightarrow>
      addEdge_A g v1 v2 w = (Inl SecondVertexMissing, g) \<and>
      addEdge_B g v1 v2 w = (Inl SecondVertexMissing, g))"
  by (auto simp: addEdge_B_eq_A addEdge_A_def has_def Map_has_conv split: option.splits)

theorem addEdge_unknown_vertex_witness:
  "\<not> has [(2::nat, []), (5, [])] 1 \<and>
   addEdge_A [(2::nat, []), (5, [])] 1 2 ''foo'' = (Inl FirstVertexMissing, [(2, []), (5, [])]) \<and>
   addEdge_B [(2::nat, []), (5, [])] 1 2 ''foo'' = (Inl FirstVertexMissing, [(2, []), (5, [])]) \<and>
   has [(2::nat, []), (5, [])] 2 \<and> \<not> has [(2::nat, []), (5, [])] 3 \<and>
   addEdge_A [(2::nat, []), (5, [])] 2 3 ''bar'' = (Inl SecondVertexMissing, [(2, []), (5, [])]) \<and>
   addEdge_B [(2::nat, []), (5, [])] 2 3 ''bar'' = (Inl SecondVertexMissing, [(2, []), (5, [])])"
  using addEdge_unknown_vertex [of "[(2::nat, []), (5, [])]" 1 2 "''foo''"]
    addEdge_unknown_vertex [of "[(2::nat, []), (5, [])]" 2 3 "''bar''"]
  by (simp add: has_def)

lemma edge_sum_Map_set:
  "Map_get k g = Some edgeMap \<Longrightarrow>
   sum_list (map (\<lambda>entry. length (snd entry)) (Map_set k edgeMap' g)) + length edgeMap =
   sum_list (map (\<lambda>entry. length (snd entry)) g) + length edgeMap'"
  by (induction g) (auto split: if_splits)

text \<open>
  Claim C9. In a graph with \<open>v1\<close> and \<open>v2\<close> present and an edge from \<open>v1\<close> to \<open>v2\<close>,
  \<open>addEdge(v1, v2, w)\<close> returns the graph in both variants, \<open>edgeCount\<close> and the length
  of \<open>getEdges(v1)\<close> stay as they were, and the entries of \<open>getEdges(v1)\<close> with
  destination \<open>v2\<close> are the single entry \<open>(v2, w)\<close>.
\<close>

theorem addEdge_overwrites:
  assumes "DWG_ok g" and "has g v1" and "has g v2" and "(v2, w0) \<in> set (getEdges g v1)"
  shows "addEdge_A g v1 v2 w = addEdge_B g v1 v2 w \<and>
         fst (addEdge_B g v1 v2 w) = Inr This \<and>
         edgeCount (snd (addEdge_B g v1 v2 w)) = edgeCount g \<and>
         length (getEdges (snd (addEdge_B g v1 v2 w)) v1) = length (getEdges g v1) \<and>
         filter (\<lambda>e. fst e = v2) (getEdges (snd (addEdge_B g v1 v2 w)) v1) = [(v2, w)]"
proof -
  from assms(2) obtain edgeMap where get: "Map_get v1 g = Some edgeMap"
    by (cases "Map_get v1 g") (auto simp: has_def Map_get_None_iff)
  with assms(1) have ok: "Map_ok edgeMap" by (rule DWG_ok_inner)
  from get assms(4) have mem: "(v2, w0) \<in> set edgeMap" by (simp add: getEdges_def)
  then have present: "Map_has v2 edgeMap" by (force simp: Map_has_iff)
  let ?g' = "Map_set v1 (Map_set v2 w edgeMap) g"
  from get assms(3) have run: "addEdge_A g v1 v2 w = (Inr This, ?g')"
    by (simp add: addEdge_A_def has_def)
  have edges: "getEdges ?g' v1 = Map_set v2 w edgeMap"
    by (simp add: getEdges_def Map_get_set)
  have len: "length (Map_set v2 w edgeMap) = length edgeMap"
    using present by (simp add: length_Map_set)
  from edge_sum_Map_set [OF get, of "Map_set v2 w edgeMap"] len
  have "edgeCount ?g' = edgeCount g" by (simp add: edgeCount_sum)
  moreover from get len edges have "length (getEdges ?g' v1) = length (getEdges g v1)"
    by (simp add: getEdges_def)
  moreover from ok edges have "filter (\<lambda>e. fst e = v2) (getEdges ?g' v1) = [(v2, w)]"
    by (simp add: filter_key_Map_set)
  ultimately show ?thesis using run by (simp add: addEdge_B_eq_A)
qed

theorem addEdge_overwrites_witness:
  "DWG_ok [(1::nat, [(2::nat, ''foo'')]), (2, [])] \<and>
   has [(1::nat, [(2::nat, ''foo'')]), (2, [])] 1 \<and>
   has [(1::nat, [(2::nat, ''foo'')]), (2, [])] 2 \<and>
   (2, ''foo'') \<in> set (getEdges [(1::nat, [(2::nat, ''foo'')]), (2, [])] 1) \<and>
   addEdge_A [(1::nat, [(2::nat, ''foo'')]), (2, [])] 1 2 ''bar'' =
     addEdge_B [(1::nat, [(2::nat, ''foo'')]), (2, [])] 1 2 ''bar'' \<and>
   fst (addEdge_B [(1::nat, [(2::nat, ''foo'')]), (2, [])] 1 2 ''bar'') = Inr This \<and>
   edgeCount (snd (addEdge_B [(1::nat, [(2::nat, ''foo'')]), (2, [])] 1 2 ''bar'')) =
     edgeCount [(1::nat, [(2::nat, ''foo'')]), (2, [])] \<and>
   length (getEdges (snd (addEdge_B [(1::nat, [(2::nat, ''foo'')]), (2, [])] 1 2 ''bar'')) 1) =
     length (getEdges [(1::nat, [(2::nat, ''foo'')]), (2, [])] 1) \<and>
   filter (\<lambda>e. fst e = 2)
     (getEdges (snd (addEdge_B [(1::nat, [(2::nat, ''foo'')]), (2, [])] 1 2 ''bar'')) 1) =
     [(2, ''bar'')]"
proof -
  have ok: "DWG_ok [(1::nat, [(2::nat, ''foo'')]), (2, [])]"
    by (simp add: DWG_ok_def Map_ok_def)
  have h1: "has [(1::nat, [(2::nat, ''foo'')]), (2, [])] 1"
    and h2: "has [(1::nat, [(2::nat, ''foo'')]), (2, [])] 2"
    by (simp_all add: has_def)
  have e: "(2, ''foo'') \<in> set (getEdges [(1::nat, [(2::nat, ''foo'')]), (2, [])] 1)"
    by (simp add: getEdges_def)
  from addEdge_overwrites [OF ok h1 h2 e, of "''bar''"] ok h1 h2 e show ?thesis
    by blast
qed

subsection \<open>addVertex of variant A\<close>

lemma getEdges_Map_set:
  "getEdges (Map_set k edgeMap g) u = (if u = k then edgeMap else getEdges g u)"
  by (simp add: getEdges_def Map_get_set)

text \<open>
  Claim C7. \<open>addVertex(v)\<close> of variant A, the strict policy: when \<open>v\<close> is present it
  throws the duplicate-vertex error and the graph is as before; when \<open>v\<close> is absent it
  returns the graph, \<open>v\<close> is its last vertex, \<open>getEdges(v)\<close> is empty and the edges of
  the other vertices are as before.
\<close>

theorem addVertex_A_strict:
  "(has g v \<longrightarrow> addVertex_A g v = (Inl VertexExists, g)) \<and>
   (\<not> has g v \<longrightarrow>
      fst (addVertex_A g v) = Inr This \<and>
      has (snd (addVertex_A g v)) v \<and>
      getEdges (snd (addVertex_A g v)) v = [] \<and>
      getAllVertices (snd (addVertex_A g v)) = getAllVertices g @ [v] \<and>
      (\<forall>u. u \<noteq> v \<longrightarrow> getEdges (snd (addVertex_A g v)) u = getEdges g u))"
  by (simp add: addVertex_A_def has_def Map_has_set getEdges_Map_set getAllVertices_def
      Map_keys_def keys_Map_set)

theorem addVertex_A_strict_witness:
  "has [(2::nat, [(5::nat, ''2 -> 5'')]), (5, [])] 2 \<and>
   addVertex_A [(2::nat, [(5::nat, ''2 -> 5'')]), (5, [])] 2 =
     (Inl VertexExists, [(2, [(5, ''2 -> 5'')]), (5, [])]) \<and>
   \<not> has [(2::nat, [(5::nat, ''2 -> 5'')]), (5, [])] 3 \<and>
   fst (addVertex_A [(2::nat, [(5::nat, ''2 -> 5'')]), (5, [])] 3) = Inr This \<and>
   has (snd (addVertex_A [(2::nat, [(5::nat, ''2 -> 5'')]), (5, [])] 3)) 3 \<and>
   getEdges (snd (addVertex_A [(2::nat, [(5::nat, ''2 -> 5'')]), (5, [])] 3)) 3 = [] \<and>
   getAllVertices (snd (addVertex_A [(2::nat, [(5::nat, ''2 -> 5'')]), (5, [])] 3)) = [2, 5, 3] \<and>
   getEdges (snd (addVertex_A [(2::nat, [(5::nat, ''2 -> 5'')]), (5, [])] 3)) 2 = [(5, ''2 -> 5'')]"
  using addVertex_A_strict [of "[(2::nat, [(5::nat, ''2 -> 5'')]), (5, [])]" 2]
    addVertex_A_strict [of "[(2::nat, [(5::nat, ''2 -> 5'')]), (5, [])]" 3]
  by (simp add: has_def getAllVertices_def Map_keys_def getEdges_def)

subsection \<open>removeVertex of variant B\<close>

lemma keys_clean:
  "map (fst \<circ> (\<lambda>(vertex, edgeMap).
                  if vertex = v then (vertex, edgeMap)
                  else (vertex, Map_delete v (edgeMap :: ('v, 'w) jsmap)))) g = map fst g"
  by (induction g) auto

lemma Map_get_clean:
  "u \<noteq> v \<Longrightarrow>
   Map_get u (map (\<lambda>(vertex, edgeMap).
                  if vertex = v then (vertex, edgeMap) else (vertex, Map_delete v edgeMap)) g) =
   map_option (Map_delete v) (Map_get u g)"
  by (induction g) auto

lemma removeVertex_B_absent: "\<not> has g v \<Longrightarrow> removeVertex_B g v = (False, g)"
  by (simp add: removeVertex_B_def has_def)

lemma removeVertex_B_present:
  assumes "has g v"
  shows "fst (removeVertex_B g v) = True"
    and "\<not> has (snd (removeVertex_B g v)) v"
    and "getAllVertices (snd (removeVertex_B g v)) = removeAll v (getAllVertices g)"
    and "getEdges (snd (removeVertex_B g v)) v = []"
    and "u \<noteq> v \<Longrightarrow>
         getEdges (snd (removeVertex_B g v)) u = filter (\<lambda>e. fst e \<noteq> v) (getEdges g u)"
proof -
  let ?clean = "map (\<lambda>(vertex, edgeMap).
                  if vertex = v then (vertex, edgeMap) else (vertex, Map_delete v edgeMap)) g"
  from assms have run: "removeVertex_B g v = (True, Map_delete v ?clean)"
    by (simp add: removeVertex_B_def has_def)
  from run show "fst (removeVertex_B g v) = True" by simp
  from run show "\<not> has (snd (removeVertex_B g v)) v"
    by (simp add: has_def Map_has_delete)
  from run show "getAllVertices (snd (removeVertex_B g v)) = removeAll v (getAllVertices g)"
    by (simp add: getAllVertices_def Map_keys_def keys_Map_delete keys_clean)
  from run show "getEdges (snd (removeVertex_B g v)) v = []"
    by (simp add: getEdges_def Map_get_delete)
  show "getEdges (snd (removeVertex_B g v)) u = filter (\<lambda>e. fst e \<noteq> v) (getEdges g u)"
    if "u \<noteq> v"
  proof -
    from that run have "getEdges (snd (removeVertex_B g v)) u =
        (case Map_get u g of None \<Rightarrow> [] | Some edgeMap \<Rightarrow> Map_delete v edgeMap)"
      by (cases "Map_get u g") (simp_all add: getEdges_def Map_get_delete Map_get_clean)
    also have "\<dots> = filter (\<lambda>e. fst e \<noteq> v) (getEdges g u)"
      by (cases "Map_get u g") (simp_all add: getEdges_def Map_delete_filter)
    finally show ?thesis .
  qed
qed

lemma removeVertex_B_no_inbound:
  "has g v \<Longrightarrow> (v, w) \<notin> set (getEdges (snd (removeVertex_B g v)) u)"
  by (cases "u = v") (simp_all add: removeVertex_B_present)

subsection \<open>addVertex of variant B\<close>

text \<open>
  Claim C8. \<open>addVertex(v)\<close> of variant B, the replace policy, with \<open>v\<close> present: the
  graph after the call is the graph after \<open>removeVertex(v)\<close> with \<open>v\<close> inserted as a
  new last vertex; \<open>has(v)\<close> holds, \<open>getEdges(v)\<close> is empty, every other vertex keeps
  its edges to destinations other than \<open>v\<close>, and no edge has the destination \<open>v\<close>.
\<close>

theorem addVertex_B_replaces:
  assumes "has g v"
  shows "snd (addVertex_B g v) = snd (addVertex_B (snd (removeVertex_B g v)) v) \<and>
         getAllVertices (snd (addVertex_B g v)) =
           getAllVertices (snd (removeVertex_B g v)) @ [v] \<and>
         has (snd (addVertex_B g v)) v \<and>
         getEdges (snd (addVertex_B g v)) v = [] \<and>
         (\<forall>u. u \<noteq> v \<longrightarrow>
            getEdges (snd (addVertex_B g v)) u = filter (\<lambda>e. fst e \<noteq> v) (getEdges g u)) \<and>
         (\<forall>u w. (v, w) \<notin> set (getEdges (snd (addVertex_B g v)) u))"
proof -
  let ?g1 = "snd (removeVertex_B g v)"
  from assms have gone: "\<not> Map_has v ?g1"
    using removeVertex_B_present(2) [OF assms] by (simp add: has_def)
  from assms have run: "snd (addVertex_B g v) = Map_set v [] ?g1"
    by (simp add: addVertex_B_def has_def)
  from gone have again: "snd (addVertex_B ?g1 v) = Map_set v [] ?g1"
    by (simp add: addVertex_B_def)
  have edges: "getEdges (Map_set v [] ?g1) u =
      (if u = v then [] else filter (\<lambda>e. fst e \<noteq> v) (getEdges g u))" for u
    using removeVertex_B_present(5) [OF assms] by (simp add: getEdges_Map_set)
  have "(v, w) \<notin> set (getEdges (Map_set v [] ?g1) u)" for u w
    by (simp add: edges)
  with run again gone edges show ?thesis
    by (simp add: has_def Map_has_set getAllVertices_def Map_keys_def keys_Map_set)
qed

theorem addVertex_B_replaces_witness:
  "has [(1::nat, [(2::nat, ''bar'')]), (2, [(1, ''back'')])] 2 \<and>
   snd (addVertex_B [(1::nat, [(2::nat, ''bar'')]), (2, [(1, ''back'')])] 2) =
     snd (addVertex_B (snd (removeVertex_B [(1::nat, [(2::nat, ''bar'')]), (2, [(1, ''back'')])] 2)) 2) \<and>
   snd (addVertex_B [(1::nat, [(2::nat, ''bar'')]), (2, [(1, ''back'')])] 2) = [(1, []), (2, [])] \<and>
   has (snd (addVertex_B [(1::nat, [(2::nat, ''bar'')]), (2, [(1, ''back'')])] 2)) 2 \<and>
   getEdges (snd (addVertex_B [(1::nat, [(2::nat, ''bar'')]), (2, [(1, ''back'')])] 2)) 2 = [] \<and>
   getEdges (snd (addVertex_B [(1::nat, [(2::nat, ''bar'')]), (2, [(1, ''back'')])] 2)) 1 = []"
proof -
  have h: "has [(1::nat, [(2::nat, ''bar'')]), (2, [(1, ''back'')])] 2"
    by (simp add: has_def)
  have v: "snd (addVertex_B [(1::nat, [(2::nat, ''bar'')]), (2, [(1, ''back'')])] 2) =
      [(1, []), (2, [])]"
    by (simp add: addVertex_B_def removeVertex_B_def)
  from addVertex_B_replaces [OF h]
  have a: "snd (addVertex_B [(1::nat, [(2::nat, ''bar'')]), (2, [(1, ''back'')])] 2) =
      snd (addVertex_B (snd (removeVertex_B [(1::nat, [(2::nat, ''bar'')]), (2, [(1, ''back'')])] 2)) 2)"
    and b: "has (snd (addVertex_B [(1::nat, [(2::nat, ''bar'')]), (2, [(1, ''back'')])] 2)) 2"
    and c: "getEdges (snd (addVertex_B [(1::nat, [(2::nat, ''bar'')]), (2, [(1, ''back'')])] 2)) 2 = []"
    by blast+
  have d: "getEdges (snd (addVertex_B [(1::nat, [(2::nat, ''bar'')]), (2, [(1, ''back'')])] 2)) 1 = []"
    unfolding v by (simp add: getEdges_def)
  from h a v b c d show ?thesis by blast
qed

subsection \<open>The vertex set is a frame of the edge methods\<close>

lemma keys_addEdge_A: "map fst (snd (addEdge_A g v1 v2 w)) = map fst g"
  by (cases "Map_get v1 g") (simp_all add: addEdge_A_def keys_Map_set Map_has_conv)

lemma keys_removeEdge_A: "map fst (snd (removeEdge_A truthy g v1 v2)) = map fst g"
  by (cases "Map_get v1 g")
    (simp_all add: removeEdge_A_def keys_Map_set Map_has_conv split: option.splits)

lemma keys_removeEdge_B: "map fst (snd (removeEdge_B g v1 v2)) = map fst g"
  by (cases "Map_get v1 g") (simp_all add: removeEdge_B_def keys_Map_set Map_has_conv)

lemma vertices_keys:
  "map fst g' = map fst g \<Longrightarrow>
   getAllVertices g' = getAllVertices g \<and> vertexCount g' = vertexCount g \<and> has g' x = has g x"
proof -
  assume keys: "map fst g' = map fst g"
  then have "length g' = length g" by (rule map_eq_imp_length_eq)
  with keys show ?thesis
    by (simp add: getAllVertices_def Map_keys_def vertexCount_def Map_size_def has_def Map_has_keys)
qed

text \<open>
  Claim C10. In both variants the graph after \<open>addEdge\<close>, \<open>removeEdge\<close> or
  \<open>getWeight\<close>, returned or thrown, has the vertices it had before: \<open>getAllVertices\<close>,
  \<open>vertexCount\<close> and \<open>has(x)\<close> answer the same.
\<close>

theorem edge_methods_keep_vertices:
  "(getAllVertices (exec_A truthy g (AddEdge v1 v2 w)) = getAllVertices g \<and>
    vertexCount (exec_A truthy g (AddEdge v1 v2 w)) = vertexCount g \<and>
    has (exec_A truthy g (AddEdge v1 v2 w)) x = has g x) \<and>
   (getAllVertices (exec_A truthy g (RemoveEdge v1 v2)) = getAllVertices g \<and>
    vertexCount (exec_A truthy g (RemoveEdge v1 v2)) = vertexCount g \<and>
    has (exec_A truthy g (RemoveEdge v1 v2)) x = has g x) \<and>
   (getAllVertices (exec_A truthy g (GetWeight v1 v2)) = getAllVertices g \<and>
    vertexCount (exec_A truthy g (GetWeight v1 v2)) = vertexCount g \<and>
    has (exec_A truthy g (GetWeight v1 v2)) x = has g x) \<and>
   (getAllVertices (exec_B g (AddEdge v1 v2 w)) = getAllVertices g \<and>
    vertexCount (exec_B g (AddEdge v1 v2 w)) = vertexCount g \<and>
    has (exec_B g (AddEdge v1 v2 w)) x = has g x) \<and>
   (getAllVertices (exec_B g (RemoveEdge v1 v2)) = getAllVertices g \<and>
    vertexCount (exec_B g (RemoveEdge v1 v2)) = vertexCount g \<and>
    has (exec_B g (RemoveEdge v1 v2)) x = has g x) \<and>
   (getAllVertices (exec_B g (GetWeight v1 v2)) = getAllVertices g \<and>
    vertexCount (exec_B g (GetWeight v1 v2)) = vertexCount g \<and>
    has (exec_B g (GetWeight v1 v2)) x = has g x)"
proof -
  have a: "map fst (exec_A truthy g (AddEdge v1 v2 w)) = map fst g"
    by (simp add: keys_addEdge_A)
  have b: "map fst (exec_A truthy g (RemoveEdge v1 v2)) = map fst g"
    by (simp add: keys_removeEdge_A)
  have c: "map fst (exec_B g (AddEdge v1 v2 w)) = map fst g"
    by (simp add: addEdge_B_eq_A keys_addEdge_A)
  have d: "map fst (exec_B g (RemoveEdge v1 v2)) = map fst g"
    by (simp add: keys_removeEdge_B)
  from vertices_keys [OF a] vertices_keys [OF b] vertices_keys [OF c] vertices_keys [OF d]
  show ?thesis by simp
qed

subsection \<open>getWeight\<close>

text \<open>
  Claim C1 says that \<open>getWeight(v1, v2)\<close> throws the no-such-edge error whenever \<open>v1\<close>
  is present and there is no edge from \<open>v1\<close> to \<open>v2\<close>. On the graph of the test suite
  (vertices 2 and 5, an edge each way) \<open>getWeight(2, 8)\<close> of variant B throws the
  second-vertex error, as the test \<open>getWeight\<close> expects.
\<close>

theorem getWeight_B_second_vertex_counterexample:
  "run_B [AddVertex (2::nat), AddVertex 5, AddEdge 2 5 ''2 -> 5'', AddEdge 5 2 ''5 -> 2''] =
     [(2, [(5, ''2 -> 5'')]), (5, [(2, ''5 -> 2'')])] \<and>
   has [(2::nat, [(5::nat, ''2 -> 5'')]), (5, [(2, ''5 -> 2'')])] 2 \<and>
   8 \<notin> fst ` set (getEdges [(2::nat, [(5::nat, ''2 -> 5'')]), (5, [(2, ''5 -> 2'')])] 2) \<and>
   getWeight_B [(2::nat, [(5::nat, ''2 -> 5'')]), (5, [(2, ''5 -> 2'')])] 2 8 =
     Inl SecondVertexMissing \<and>
   getWeight_B [(2::nat, [(5::nat, ''2 -> 5'')]), (5, [(2, ''5 -> 2'')])] 2 8 \<noteq> Inl NoSuchEdge"
  by (simp add: run_B_def DWG_new_def addVertex_B_def addEdge_B_def has_def getEdges_def
      getWeight_B_def)

text \<open>
  Claim C1, amended. In every graph state \<open>getWeight(v1, v2)\<close> throws the first-vertex
  error when \<open>v1\<close> is absent, in both variants. With \<open>v1\<close> present, variant B throws the
  second-vertex error when \<open>v2\<close> is absent, the no-such-edge error when \<open>v2\<close> is present
  and no edge from \<open>v1\<close> to \<open>v2\<close> exists, and otherwise returns the stored weight,
  whatever its value; variant A throws its second-vertex error when no edge from \<open>v1\<close>
  to \<open>v2\<close> is stored, and returns the stored weight of an edge when that weight is
  truthy.
\<close>

theorem getWeight_cases:
  assumes "DWG_ok g"
  shows "(\<not> has g v1 \<longrightarrow>
            getWeight_B g v1 v2 = Inl FirstVertexMissing \<and>
            getWeight_A truthy g v1 v2 = Inl FirstVertexMissing) \<and>
         (has g v1 \<and> \<not> has g v2 \<longrightarrow> getWeight_B g v1 v2 = Inl SecondVertexMissing) \<and>
         (has g v1 \<and> has g v2 \<and> v2 \<notin> fst ` set (getEdges g v1) \<longrightarrow>
            getWeight_B g v1 v2 = Inl NoSuchEdge) \<and>
         (has g v1 \<and> has g v2 \<and> (v2, w) \<in> set (getEdges g v1) \<longrightarrow>
            getWeight_B g v1 v2 = Inr w) \<and>
         (has g v1 \<and> v2 \<notin> fst ` set (getEdges g v1) \<longrightarrow>
            getWeight_A truthy g v1 v2 = Inl SecondVertexMissing) \<and>
         ((v2, w) \<in> set (getEdges g v1) \<and> truthy w \<longrightarrow> getWeight_A truthy g v1 v2 = Inr w)"
proof (cases "Map_get v1 g")
  case None
  then show ?thesis
    by (simp add: getWeight_B_def getWeight_A_def has_def Map_has_conv getEdges_def)
next
  case (Some edgeMap)
  with assms have ok: "Map_ok edgeMap" by (rule DWG_ok_inner)
  have absent: "Map_get v2 edgeMap = None" if "v2 \<notin> fst ` set edgeMap"
    using that by (simp add: Map_get_None_iff Map_has_iff)
  have stored: "Map_get v2 edgeMap = Some w" if "(v2, w) \<in> set edgeMap"
    using ok that by (rule Map_ok_get)
  from Some absent stored show ?thesis
    by (simp add: getWeight_B_def getWeight_A_def has_def Map_has_conv getEdges_def)
qed

theorem getWeight_cases_witness:
  "DWG_ok [(1::nat, [(2::nat, 0::int)]), (2, [(1, 7)]), (3, [])] \<and>
   \<not> has [(1::nat, [(2::nat, 0::int)]), (2, [(1, 7)]), (3, [])] 4 \<and>
   getWeight_B [(1::nat, [(2::nat, 0::int)]), (2, [(1, 7)]), (3, [])] 4 1 = Inl FirstVertexMissing \<and>
   getWeight_A truthy_number [(1::nat, [(2::nat, 0::int)]), (2, [(1, 7)]), (3, [])] 4 1 =
     Inl FirstVertexMissing \<and>
   has [(1::nat, [(2::nat, 0::int)]), (2, [(1, 7)]), (3, [])] 1 \<and>
   \<not> has [(1::nat, [(2::nat, 0::int)]), (2, [(1, 7)]), (3, [])] 8 \<and>
   getWeight_B [(1::nat, [(2::nat, 0::int)]), (2, [(1, 7)]), (3, [])] 1 8 = Inl SecondVertexMissing \<and>
   has [(1::nat, [(2::nat, 0::int)]), (2, [(1, 7)]), (3, [])] 3 \<and>
   3 \<notin> fst ` set (getEdges [(1::nat, [(2::nat, 0::int)]), (2, [(1, 7)]), (3, [])] 1) \<and>
   getWeight_B [(1::nat, [(2::nat, 0::int)]), (2, [(1, 7)]), (3, [])] 1 3 = Inl NoSuchEdge \<and>
   getWeight_A truthy_number [(1::nat, [(2::nat, 0::int)]), (2, [(1, 7)]), (3, [])] 1 3 =
     Inl SecondVertexMissing \<and>
   has [(1::nat, [(2::nat, 0::int)]), (2, [(1, 7)]), (3, [])] 2 \<and>
   (2, 0) \<in> set (getEdges [(1::nat, [(2::nat, 0::int)]), (2, [(1, 7)]), (3, [])] 1) \<and>
   getWeight_B [(1::nat, [(2::nat, 0::int)]), (2, [(1, 7)]), (3, [])] 1 2 = Inr 0 \<and>
   (1, 7) \<in> set (getEdges [(1::nat, [(2::nat, 0::int)]), (2, [(1, 7)]), (3, [])] 2) \<and>
   truthy_number 7 \<and>
   getWeight_A truthy_number [(1::nat, [(2::nat, 0::int)]), (2, [(1, 7)]), (3, [])] 2 1 = Inr 7"
proof -
  let ?g = "[(1::nat, [(2::nat, 0::int)]), (2, [(1, 7)]), (3, [])]"
  have ok: "DWG_ok ?g"
    by (simp add: DWG_ok_def Map_ok_def)
  have h: "\<not> has ?g 4" "has ?g 1" "\<not> has ?g 8" "has ?g 3" "has ?g 2"
    by (simp_all add: has_def)
  have e: "3 \<notin> fst ` set (getEdges ?g 1)" "(2, 0) \<in> set (getEdges ?g 1)"
    "(1, 7) \<in> set (getEdges ?g 2)" "truthy_number 7"
    by (simp_all add: getEdges_def truthy_number_def)
  from getWeight_cases [OF ok, of 4 1 truthy_number] h
  have a: "getWeight_B ?g 4 1 = Inl FirstVertexMissing"
    "getWeight_A truthy_number ?g 4 1 = Inl FirstVertexMissing"
    by blast+
  from getWeight_cases [OF ok, of 1 8] h
  have b: "getWeight_B ?g 1 8 = Inl SecondVertexMissing"
    by blast
  from getWeight_cases [OF ok, of 1 3 truthy_number] h e
  have c: "getWeight_B ?g 1 3 = Inl NoSuchEdge"
    "getWeight_A truthy_number ?g 1 3 = Inl SecondVertexMissing"
    by blast+
  from getWeight_cases [OF ok, of 1 2 _ 0] h e
  have d: "getWeight_B ?g 1 2 = Inr 0"
    by blast
  from getWeight_cases [OF ok, of 2 1 truthy_number 7] h e
  have f: "getWeight_A truthy_number ?g 2 1 = Inr 7"
    by blast
  from ok h e a b c d f show ?thesis by blast
qed

text \<open>
  With a falsy weight stored, \<open>getWeight\<close> of variant A throws where variant B returns
  the weight.
\<close>

lemma getWeight_A_falsy_weight:
  "run_A truthy_number [AddVertex (1::nat), AddVertex 2, AddEdge 1 2 0] =
     [(1, [(2, 0)]), (2, [])] \<and>
   getWeight_A truthy_number [(1::nat, [(2::nat, 0)]), (2, [])] 1 2 = Inl SecondVertexMissing \<and>
   getWeight_B [(1::nat, [(2::nat, 0::int)]), (2, [])] 1 2 = Inr 0"
  by (simp add: run_A_def DWG_new_def addVertex_A_def addEdge_A_def getWeight_A_def
      getWeight_B_def truthy_number_def)

subsection \<open>removeEdge\<close>

lemma removeEdge_B_errors:
  "(\<not> has g v1 \<longrightarrow> removeEdge_B g v1 v2 = (Inl FirstVertexMissing, g)) \<and>
   (has g v1 \<and> \<not> has g v2 \<longrightarrow> removeEdge_B g v1 v2 = (Inl SecondVertexMissing, g))"
  by (simp add: removeEdge_B_def has_def)

lemma removeEdge_B_present:
  assumes "has g v1" and "has g v2"
  shows "fst (removeEdge_B g v1 v2) = Inr (v2 \<in> fst ` set (getEdges g v1))"
    and "getEdges (snd (removeEdge_B g v1 v2)) v1 = filter (\<lambda>e. fst e \<noteq> v2) (getEdges g v1)"
    and "u \<noteq> v1 \<Longrightarrow> getEdges (snd (removeEdge_B g v1 v2)) u = getEdges g u"
    and "v2 \<notin> fst ` set (getEdges g v1) \<Longrightarrow> snd (removeEdge_B g v1 v2) = g"
proof -
  from assms(1) obtain edgeMap where get: "Map_get v1 g = Some edgeMap"
    by (cases "Map_get v1 g") (auto simp: has_def Map_has_conv)
  with assms have run:
    "removeEdge_B g v1 v2 = (Inr (Map_has v2 edgeMap), Map_set v1 (Map_delete v2 edgeMap) g)"
    by (simp add: removeEdge_B_def has_def)
  from get have edges: "getEdges g v1 = edgeMap" by (simp add: getEdges_def)
  from run edges show "fst (removeEdge_B g v1 v2) = Inr (v2 \<in> fst ` set (getEdges g v1))"
    by (simp add: Map_has_iff)
  from run edges
  show "getEdges (snd (removeEdge_B g v1 v2)) v1 = filter (\<lambda>e. fst e \<noteq> v2) (getEdges g v1)"
    by (simp add: getEdges_Map_set Map_delete_filter)
  from run show "getEdges (snd (removeEdge_B g v1 v2)) u = getEdges g u" if "u \<noteq> v1"
    using that by (simp add: getEdges_Map_set)
  show "snd (removeEdge_B g v1 v2) = g" if "v2 \<notin> fst ` set (getEdges g v1)"
  proof -
    from that edges have "Map_delete v2 edgeMap = edgeMap"
      by (simp add: Map_delete_absent Map_has_iff)
    with run get show ?thesis by (simp add: Map_set_same)
  qed
qed

text \<open>
  Claim C2, at a graph with the vertices 1 and 2 and an edge from 1 to 2 of weight 0:
  \<open>removeEdge(1, 2)\<close> of variant A throws the second-vertex error and the edge stays,
  where variant B returns \<open>true\<close> and deletes it. On the graph of the test suite
  variant A returns the weight of the edge, and throws when the edge is removed again.
\<close>

theorem removeEdge_A_falsy_weight:
  "run_A truthy_number [AddVertex (1::nat), AddVertex 2, AddEdge 1 2 0] =
     [(1, [(2, 0)]), (2, [])] \<and>
   removeEdge_A truthy_number [(1::nat, [(2::nat, 0)]), (2, [])] 1 2 =
     (Inl SecondVertexMissing, [(1, [(2, 0)]), (2, [])]) \<and>
   removeEdge_B [(1::nat, [(2::nat, 0::int)]), (2, [])] 1 2 = (Inr True, [(1, []), (2, [])]) \<and>
   removeEdge_A truthy_string [(2::nat, [(5::nat, ''2 -> 5'')]), (5, [(2, ''5 -> 2'')])] 2 5 =
     (Inr ''2 -> 5'', [(2, []), (5, [(2, ''5 -> 2'')])]) \<and>
   removeEdge_A truthy_string [(2::nat, []), (5::nat, [(2, ''5 -> 2'')])] 2 5 =
     (Inl SecondVertexMissing, [(2, []), (5, [(2, ''5 -> 2'')])])"
  by (simp add: run_A_def DWG_new_def addVertex_A_def addEdge_A_def removeEdge_A_def
      removeEdge_B_def truthy_number_def truthy_string_def)

subsection \<open>removeVertex\<close>

text \<open>
  Claim C3, on variant A. On the graph of the test suite before its \<open>removeVertex\<close>
  test (vertices 2 and 5, one edge from 5 to 2), \<open>removeVertex(2)\<close> returns \<open>true\<close> and
  the edge from 5 to 2 stays, so \<open>edgeCount\<close> is 1. On the graph with the vertices 1
  and 2 and one edge from 1 to 2, \<open>removeVertex(1)\<close> throws the second-vertex error and
  removes nothing. With the further vertex 3 and the edges 2 to 1 and 1 to 3, it
  removes the edge from 2 to 1 and then throws. Variant B removes the vertex and its
  edges in each case.
\<close>

theorem removeVertex_A_keeps_inbound_or_throws:
  "removeVertex_A truthy_string [(2::nat, []), (5::nat, [(2, ''5 -> 2'')])] 2 =
     (Inr True, [(5, [(2, ''5 -> 2'')])]) \<and>
   edgeCount (snd (removeVertex_A truthy_string [(2::nat, []), (5::nat, [(2, ''5 -> 2'')])] 2)) = 1 \<and>
   removeVertex_B [(2::nat, []), (5::nat, [(2, ''5 -> 2'')])] 2 = (True, [(5, [])]) \<and>
   removeVertex_A truthy_string [(1::nat, [(2::nat, ''foo'')]), (2, [])] 1 =
     (Inl SecondVertexMissing, [(1, [(2, ''foo'')]), (2, [])]) \<and>
   removeVertex_B [(1::nat, [(2::nat, ''foo'')]), (2, [])] 1 = (True, [(2, [])]) \<and>
   removeVertex_A truthy_string
     [(1::nat, [(2::nat, ''a''), (3, ''c'')]), (2, [(1, ''b'')]), (3, [])] 1 =
     (Inl SecondVertexMissing, [(1, [(2, ''a''), (3, ''c'')]), (2, []), (3, [])]) \<and>
   removeVertex_B [(1::nat, [(2::nat, ''a''), (3, ''c'')]), (2, [(1, ''b'')]), (3, [])] 1 =
     (True, [(2, []), (3, [])])"
  by (simp add: removeVertex_A_def removeEdge_A_def removeVertex_B_def Map_keys_def
      truthy_string_def edgeCount_def Map_size_def)

lemma removeVertex_A_test_graph:
  "run_A truthy_string
     [AddVertex (2::nat), AddVertex 5, AddEdge 2 5 ''2 -> 5'', AddEdge 5 2 ''5 -> 2'',
      RemoveEdge 2 5] = [(2, []), (5, [(2, ''5 -> 2'')])]"
  by (simp add: run_A_def DWG_new_def addVertex_A_def addEdge_A_def removeEdge_A_def
      truthy_string_def)

subsection \<open>No edge dangles\<close>

text \<open>
  Claim C4, on variant A: after \<open>addVertex(1)\<close>, \<open>addVertex(2)\<close>, \<open>addEdge(1, 2, 'foo')\<close>
  and \<open>removeVertex(2)\<close> on a new graph, \<open>removeVertex\<close> has returned \<open>true\<close>, the vertex 2
  is gone and \<open>getEdges(1)\<close> still holds the edge to it.
\<close>

theorem removeVertex_A_leaves_dangling_edge:
  "fst (removeVertex_A truthy_string
          (run_A truthy_string [AddVertex (1::nat), AddVertex 2, AddEdge 1 2 ''foo'']) 2) =
     Inr True \<and>
   \<not> has (run_A truthy_string
            [AddVertex (1::nat), AddVertex 2, AddEdge 1 2 ''foo'', RemoveVertex 2]) 2 \<and>
   getEdges (run_A truthy_string
              [AddVertex (1::nat), AddVertex 2, AddEdge 1 2 ''foo'', RemoveVertex 2]) 1 =
     [(2, ''foo'')] \<and>
   \<not> DWG_closed (run_A truthy_string
                  [AddVertex (1::nat), AddVertex 2, AddEdge 1 2 ''foo'', RemoveVertex 2])"
  by (simp add: run_A_def DWG_new_def addVertex_A_def addEdge_A_def removeVertex_A_def
      removeEdge_A_def Map_keys_def truthy_string_def has_def getEdges_def DWG_closed_def)

text \<open>Variant B keeps the graph free of dangling edges along every sequence of calls.\<close>

lemma DWG_closed_iff:
  "DWG_closed g \<longleftrightarrow> (\<forall>u edgeMap v w. (u, edgeMap) \<in> set g \<longrightarrow> (v, w) \<in> set edgeMap \<longrightarrow> Map_has v g)"
  by (fastforce simp: DWG_closed_def list_all_iff)

lemma DWG_closed_Map_set:
  assumes "DWG_closed g"
    and "\<And>x w. (x, w) \<in> set edgeMap \<Longrightarrow> Map_has x g"
  shows "DWG_closed (Map_set k edgeMap g)"
  unfolding DWG_closed_iff
proof (intro allI impI)
  fix u em x w
  assume entry: "(u, em) \<in> set (Map_set k edgeMap g)" and edge: "(x, w) \<in> set em"
  from entry set_Map_set [of k edgeMap g] have "(u, em) = (k, edgeMap) \<or> (u, em) \<in> set g"
    by auto
  then have "Map_has x g"
  proof
    assume "(u, em) = (k, edgeMap)"
    with edge assms(2) show ?thesis by simp
  next
    assume "(u, em) \<in> set g"
    with edge assms(1) show ?thesis by (auto simp: DWG_closed_iff)
  qed
  then show "Map_has x (Map_set k edgeMap g)" by (rule Map_has_Map_set_mono)
qed

lemma DWG_closed_edges:
  "DWG_closed g \<Longrightarrow> Map_get u g = Some edgeMap \<Longrightarrow> (x, w) \<in> set edgeMap \<Longrightarrow> Map_has x g"
  by (auto simp: DWG_closed_iff dest: Map_get_SomeD)

lemma DWG_closed_addEdge_B: "DWG_closed g \<Longrightarrow> DWG_closed (snd (addEdge_B g v1 v2 w))"
proof (cases "Map_get v1 g")
  case None
  assume "DWG_closed g"
  with None show ?thesis by (simp add: addEdge_B_eq_A addEdge_A_def)
next
  case (Some edgeMap)
  assume closed: "DWG_closed g"
  show ?thesis
  proof (cases "Map_has v2 g")
    case False
    with Some closed show ?thesis by (simp add: addEdge_B_eq_A addEdge_A_def)
  next
    case True
    have "Map_has x g" if "(x, w') \<in> set (Map_set v2 w edgeMap)" for x w'
    proof -
      from that set_Map_set [of v2 w edgeMap] have "(x, w') = (v2, w) \<or> (x, w') \<in> set edgeMap"
        by auto
      with True DWG_closed_edges [OF closed Some] show ?thesis by auto
    qed
    with closed have "DWG_closed (Map_set v1 (Map_set v2 w edgeMap) g)"
      by (rule DWG_closed_Map_set)
    with Some True show ?thesis by (simp add: addEdge_B_eq_A addEdge_A_def)
  qed
qed

lemma DWG_closed_removeEdge_B: "DWG_closed g \<Longrightarrow> DWG_closed (snd (removeEdge_B g v1 v2))"
proof (cases "Map_get v1 g")
  case None
  assume "DWG_closed g"
  with None show ?thesis by (simp add: removeEdge_B_def)
next
  case (Some edgeMap)
  assume closed: "DWG_closed g"
  have "Map_has x g" if "(x, w') \<in> set (Map_delete v2 edgeMap)" for x w'
    using that DWG_closed_edges [OF closed Some] by (auto simp: set_Map_delete)
  with closed have "DWG_closed (Map_set v1 (Map_delete v2 edgeMap) g)"
    by (rule DWG_closed_Map_set)
  with Some closed show ?thesis by (simp add: removeEdge_B_def)
qed

lemma Map_has_clean:
  "Map_has x (map (\<lambda>(vertex, edgeMap).
                  if vertex = v then (vertex, edgeMap) else (vertex, Map_delete v edgeMap)) g) =
   Map_has x g"
  by (induction g) (auto split: if_splits)

lemma DWG_closed_removeVertex_B: "DWG_closed g \<Longrightarrow> DWG_closed (snd (removeVertex_B g v))"
proof (cases "Map_has v g")
  case False
  assume "DWG_closed g"
  with False show ?thesis by (simp add: removeVertex_B_def)
next
  case True
  assume closed: "DWG_closed g"
  let ?clean = "map (\<lambda>(vertex, edgeMap).
                  if vertex = v then (vertex, edgeMap) else (vertex, Map_delete v edgeMap)) g"
  have "DWG_closed (Map_delete v ?clean)"
    unfolding DWG_closed_iff
  proof (intro allI impI)
    fix u em x w
    assume entry: "(u, em) \<in> set (Map_delete v ?clean)" and edge: "(x, w) \<in> set em"
    from entry obtain em0 where old: "(u, em0) \<in> set g" and em: "em = Map_delete v em0"
      by (auto simp: set_Map_delete split: if_splits)
    from edge em have "x \<noteq> v" and "(x, w) \<in> set em0"
      by (simp_all add: set_Map_delete)
    with old closed have "Map_has x g" by (auto simp: DWG_closed_iff)
    with \<open>x \<noteq> v\<close> show "Map_has x (Map_delete v ?clean)"
      by (simp add: Map_has_delete Map_has_clean)
  qed
  with True show ?thesis by (simp add: removeVertex_B_def)
qed

lemma DWG_closed_new_vertex: "DWG_closed g \<Longrightarrow> DWG_closed (Map_set v [] g)"
  by (rule DWG_closed_Map_set) simp_all

lemma DWG_closed_addVertex_B: "DWG_closed g \<Longrightarrow> DWG_closed (snd (addVertex_B g v))"
  by (simp add: addVertex_B_def DWG_closed_new_vertex DWG_closed_removeVertex_B)

lemma DWG_closed_exec_B: "DWG_closed g \<Longrightarrow> DWG_closed (exec_B g c)"
  by (cases c)
    (simp_all add: DWG_closed_addVertex_B DWG_closed_addEdge_B DWG_closed_removeEdge_B
      DWG_closed_removeVertex_B)

lemma DWG_closed_foldl_B: "DWG_closed g \<Longrightarrow> DWG_closed (foldl exec_B g calls)"
  by (induction calls arbitrary: g) (simp_all add: DWG_closed_exec_B)

lemma no_dangling_edge_B:
  assumes "(v, w) \<in> set (getEdges (run_B calls) u)"
  shows "has (run_B calls) v"
proof -
  have "DWG_closed (foldl exec_B [] calls)"
    by (rule DWG_closed_foldl_B) (simp add: DWG_closed_def)
  then have closed: "DWG_closed (run_B calls)"
    by (simp add: run_B_def DWG_new_def)
  from assms obtain edgeMap where "Map_get u (run_B calls) = Some edgeMap"
    and "(v, w) \<in> set edgeMap"
    by (cases "Map_get u (run_B calls)") (simp_all add: getEdges_def)
  with closed show ?thesis
    unfolding has_def by (rule DWG_closed_edges)
qed

end
